theory Spec2Isabelle
  imports
    Main
    "HOL-Library.Multiset"
    "HOL-Library.Char_ord"
    "HOL-Library.List_Lexorder"
begin

section \<open>Drop-in configuration files: \<open>create_sorted_file_list\<close>\<close>

text \<open>
  Source: the anonymous-namespace function \<open>create_sorted_file_list\<close> of libdnf5's
  \<open>base.cpp\<close>, called by \<open>Base::load_config\<close> with the two drop-in directories and
  the extension \<open>.conf\<close>.

  The function reads the file system, so the file system is an explicit argument of the
  model: \<open>fs dir\<close> is the sequence of entries that \<open>fs::directory_iterator(dir, ec)\<close>
  yields, in the order it yields them (an order the operating system chooses). A directory
  that cannot be opened sets \<open>ec\<close> and yields nothing: it is the empty sequence. An
  error while the iterator advances or while an entry is examined throws out of the
  function, which then returns no list; the model is about the runs that return.

  An entry carries its name and what \<open>dentry.is_regular_file()\<close> answers. The path of an
  entry is \<open>dir / name\<close>; it is kept as the pair of both parts, so that
  \<open>path.filename()\<close> is the second part. File names are byte strings, compared as
  \<open>std::string\<close> compares them: lexicographically, bytes as unsigned numbers.
\<close>

record dentry =
  d_name :: string
  d_regular :: bool

record path =
  parent_path :: string
  filename :: string

text \<open>
  \<open>std::filesystem::path::extension\<close> on a file name: the substring from the rightmost
  period to the end, unless the name is dot or dot-dot, has no period, or its only period is
  its first character (\<open>.profile\<close> has no extension).
\<close>

definition extension :: "string \<Rightarrow> string" where
  "extension fname =
     (if fname = ''.'' \<or> fname = ''..'' \<or> CHR ''.'' \<notin> set fname then []
      else let tail = rev (takeWhile (\<lambda>c. c \<noteq> CHR ''.'') (rev fname))
           in if length tail + 1 = length fname then [] else CHR ''.'' # tail)"

text \<open>The inner loop over \<open>paths\<close> that sets \<open>found\<close> and breaks at the first equal name.\<close>

fun found_in_list :: "string \<Rightarrow> path list \<Rightarrow> bool" where
  "found_in_list path_fname [] = False"
| "found_in_list path_fname (path_in_list # rest) =
     (if path_fname = filename path_in_list then True else found_in_list path_fname rest)"

text \<open>The loop over the entries of one directory; \<open>paths\<close> is the vector built so far.\<close>

fun scan_directory :: "string \<Rightarrow> string \<Rightarrow> dentry list \<Rightarrow> path list \<Rightarrow> path list" where
  "scan_directory file_extension dir [] paths = paths"
| "scan_directory file_extension dir (dentry # dentries) paths =
     scan_directory file_extension dir dentries
       (if d_regular dentry \<and> extension (d_name dentry) = file_extension
        then (if found_in_list (d_name dentry) paths then paths
              else paths @ [\<lparr>parent_path = dir, filename = d_name dentry\<rparr>])
        else paths)"

text \<open>The outer loop over \<open>directories\<close>, in the order of the input vector.\<close>

fun collect_paths ::
  "(string \<Rightarrow> dentry list) \<Rightarrow> string \<Rightarrow> string list \<Rightarrow> path list \<Rightarrow> path list" where
  "collect_paths fs file_extension [] paths = paths"
| "collect_paths fs file_extension (dir # directories) paths =
     collect_paths fs file_extension directories
       (scan_directory file_extension dir (fs dir) paths)"

text \<open>
  \<open>std::sort\<close> with the comparator \<open>p1.filename() < p2.filename()\<close>. The standard only
  promises a permutation in which no later element compares less than an earlier one;
  the model takes one such function, the library's \<open>sort_key\<close>.
\<close>

definition create_sorted_file_list ::
  "(string \<Rightarrow> dentry list) \<Rightarrow> string list \<Rightarrow> string \<Rightarrow> path list" where
  "create_sorted_file_list fs directories file_extension =
     sort_key filename (collect_paths fs file_extension directories [])"

text \<open>
  A regular file named \<open>n\<close> with the requested extension is listed in directory \<open>dir\<close>.
\<close>

definition has_file :: "(string \<Rightarrow> dentry list) \<Rightarrow> string \<Rightarrow> string \<Rightarrow> string \<Rightarrow> bool" where
  "has_file fs file_extension dir n =
     (extension n = file_extension \<and> list_ex (\<lambda>e. d_name e = n \<and> d_regular e) (fs dir))"

section \<open>Tolerated configuration-file errors: \<open>Base::with_config_file_path\<close>\<close>

text \<open>
  Source: \<open>Base::with_config_file_path\<close> of libdnf5's \<open>base.cpp\<close>. The wrapped
  \<open>func\<close> either completes or throws; an exception is a value of \<open>config_exception\<close>,
  where \<open>OtherException\<close> stands for every exception type that neither \<open>catch\<close>
  clause matches.

  The enumeration \<open>Option::Priority\<close> is declared in another header of libdnf5. The
  function only compares priorities, so the priority type is any linear order and the
  enumerator \<open>COMMANDLINE\<close> is an argument. The \<open>std::filesystem\<close> expression
  \<open>installroot / conf_path.relative_path()\<close> is the argument \<open>under_root\<close>.
\<close>

datatype config_exception =
    MissingConfigError
  | InaccessibleConfigError
  | OtherException string

record 'p config_main =
  config_file_path :: string
  config_file_path_priority :: 'p
  use_host_config :: bool
  installroot :: string

text \<open>
  The path handed to \<open>func\<close>: the statements of \<open>with_config_file_path\<close> before the
  \<open>try\<close> block.
\<close>

definition conf_path_for ::
  "'p::linorder \<Rightarrow> (string \<Rightarrow> string \<Rightarrow> string) \<Rightarrow> 'p config_main \<Rightarrow> string" where
  "conf_path_for COMMANDLINE under_root config =
     (let conf_path = config_file_path config;
          conf_path_priority = config_file_path_priority config;
          use_host = use_host_config config
      in if \<not> use_host \<and> conf_path_priority < COMMANDLINE
         then under_root (installroot config) conf_path
         else conf_path)"

text \<open>
  The \<open>try\<close> block with its two \<open>catch\<close> clauses. A clause that does not rethrow
  falls off the end of the function, which then returns normally.
\<close>

definition with_config_file_path ::
  "'p::linorder \<Rightarrow> (string \<Rightarrow> string \<Rightarrow> string) \<Rightarrow> 'p config_main \<Rightarrow>
   (string \<Rightarrow> config_exception + unit) \<Rightarrow> config_exception + unit" where
  "with_config_file_path COMMANDLINE under_root config func =
     (let conf_path_priority = config_file_path_priority config
      in case func (conf_path_for COMMANDLINE under_root config) of
           Inr done \<Rightarrow> Inr done
         | Inl MissingConfigError \<Rightarrow>
             (if conf_path_priority \<ge> COMMANDLINE then Inl MissingConfigError else Inr ())
         | Inl InaccessibleConfigError \<Rightarrow>
             (if conf_path_priority \<ge> COMMANDLINE then Inl InaccessibleConfigError else Inr ())
         | Inl (OtherException what) \<Rightarrow> Inl (OtherException what))"


section \<open>The repoquery command: \<open>RepoqueryCommand::configure\<close>\<close>

text \<open>
  Source: \<open>RepoqueryCommand::configure\<close> of dnf5's \<open>repoquery.cpp\<close>. The command
  object is the record of the option values that \<open>configure\<close> reads, together with its
  member \<open>system_repo_needed\<close>, which \<open>configure\<close> writes.

  The context of the session is an abstract state \<open>'c\<close>. What \<open>configure\<close> calls on it
  is defined in other files of dnf5 and is passed in as a record of functions, one
  field for each callee; so are the two helpers \<open>libdnf5::utils::is_file_pattern\<close> and
  \<open>libdnf5::cli::output::requires_filelists\<close>. The callees are taken to return normally.
  The field \<open>add_optional_metadata_type\<close> stands for
  \<open>get_optional_metadata_types_option().add_item(Option::Priority::RUNTIME, type)\<close> and
  \<open>enable_source_repos\<close> for the call of that name on the repo sack of the base.
\<close>

datatype LoadAvailableRepos = LoadAvailableRepos_NONE | LoadAvailableRepos_ENABLED

datatype metadata_type = METADATA_TYPE_OTHER | METADATA_TYPE_FILELISTS

datatype cli_exception = ArgumentParserMissingDependentArgumentError

record advisory_options =
  advisory_name :: "string list"
  advisory_security :: bool
  advisory_bugfix :: bool
  advisory_enhancement :: bool
  advisory_newpackage :: bool
  advisory_severity :: "string list"
  advisory_bz :: "string list"
  advisory_cve :: "string list"

record 'p repoquery_command =
  pkg_specs :: "string list"
  system_repo_needed :: bool
  querytags_option :: bool
  available_option_priority :: 'p
  installed_option :: bool
  userinstalled_option :: bool
  duplicates :: bool
  leaves_option :: bool
  unneeded :: bool
  extras :: bool
  upgrades :: bool
  installonly :: bool
  advisory :: advisory_options
  srpm :: bool
  changelogs :: bool
  pkg_attr_option :: string
  query_format_option :: string
  whatrequires :: "string list"
  whatdepends :: "string list"
  whatconflicts :: "string list"
  whatprovides :: "string list"
  whatobsoletes :: "string list"
  whatrecommends :: "string list"
  whatenhances :: "string list"
  whatsupplements :: "string list"
  whatsuggests :: "string list"
  exactdeps :: bool

record 'c context_ops =
  update_repo_metadata_from_specs :: "string list \<Rightarrow> 'c \<Rightarrow> 'c"
  set_load_system_repo :: "bool \<Rightarrow> 'c \<Rightarrow> 'c"
  update_repo_metadata_from_advisory_options :: "advisory_options \<Rightarrow> 'c \<Rightarrow> 'c"
  set_load_available_repos :: "LoadAvailableRepos \<Rightarrow> 'c \<Rightarrow> 'c"
  enable_source_repos :: "'c \<Rightarrow> 'c"
  add_optional_metadata_type :: "metadata_type \<Rightarrow> 'c \<Rightarrow> 'c"
  is_file_pattern :: "string \<Rightarrow> bool"
  requires_filelists :: "string \<Rightarrow> bool"

text \<open>
  The nine capability lists, in the order of the initializer list that the nested loop of
  \<open>configure\<close> runs over.
\<close>

definition capability_lists :: "'p repoquery_command \<Rightarrow> string list list" where
  "capability_lists cmd =
     [whatrequires cmd, whatdepends cmd, whatconflicts cmd, whatprovides cmd,
      whatobsoletes cmd, whatrecommends cmd, whatenhances cmd, whatsupplements cmd,
      whatsuggests cmd]"

text \<open>
  The first early return (\<open>--querytags\<close>) leaves command and context as they are. The
  statements up to the \<open>--changelogs\<close> test run in sequence on the context. Then come the
  two early returns that request the file lists, and last the test that throws.
\<close>

definition configure ::
  "'p::linorder \<Rightarrow> 'c context_ops \<Rightarrow> 'p repoquery_command \<Rightarrow> 'c \<Rightarrow>
   cli_exception + ('p repoquery_command \<times> 'c)" where
  "configure COMMANDLINE ops cmd context =
     (if querytags_option cmd then Inr (cmd, context)
      else
        let context = update_repo_metadata_from_specs ops (pkg_specs cmd) context;
            needed = (installed_option cmd \<or> userinstalled_option cmd \<or> duplicates cmd \<or>
                      leaves_option cmd \<or> unneeded cmd \<or> extras cmd \<or> upgrades cmd \<or>
                      installonly cmd);
            cmd = cmd\<lparr>system_repo_needed := needed\<rparr>;
            context = set_load_system_repo ops needed context;
            context = update_repo_metadata_from_advisory_options ops (advisory cmd) context;
            context = set_load_available_repos ops
                        (if available_option_priority cmd \<ge> COMMANDLINE \<or> \<not> needed \<or>
                            extras cmd \<or> upgrades cmd
                         then LoadAvailableRepos_ENABLED else LoadAvailableRepos_NONE)
                        context;
            context = (if srpm cmd then enable_source_repos ops context else context);
            context = (if changelogs cmd
                       then add_optional_metadata_type ops METADATA_TYPE_OTHER context
                       else context)
        in if pkg_attr_option cmd = ''files'' \<or> requires_filelists ops (query_format_option cmd)
           then Inr (cmd, add_optional_metadata_type ops METADATA_TYPE_FILELISTS context)
           else if list_ex (list_ex (is_file_pattern ops)) (capability_lists cmd)
           then Inr (cmd, add_optional_metadata_type ops METADATA_TYPE_FILELISTS context)
           else if exactdeps cmd \<and> (whatrequires cmd = [] \<and> whatdepends cmd = [])
           then Inl ArgumentParserMissingDependentArgumentError
           else Inr (cmd, context))"


section \<open>Package sets and queries\<close>

text \<open>
  The classes \<open>PackageSet\<close> and \<open>PackageQuery\<close> of libdnf5 are used by
  \<open>repoquery.cpp\<close> and defined in other files of libdnf5. The specification describes
  them: a package is an immutable handle into the solver's pool, with its attributes
  resolved through the pool; a query is a mutable, copyable set-like view over packages,
  combined by union, intersection and difference and narrowed by filter predicates (arch,
  provides, requires, file ownership). A handle is a number, the pool maps a handle to the
  attributes, and a query is a set of handles. Copying a query is the identity, since sets
  are values.
\<close>

type_synonym package = nat

type_synonym package_set = "package set"

record package_attrs =
  pkg_arch :: string
  pkg_provides :: "string list"
  pkg_files :: "string list"

type_synonym pool = "package \<Rightarrow> package_attrs"

datatype ExcludeFlags = APPLY_EXCLUDES | IGNORE_MODULAR_EXCLUDES

text \<open>
  Modelled from the spec: the constructor \<open>PackageQuery(base, flags, empty)\<close>, missing
  from the source files. The base is the function that gives, for each choice of flags,
  the packages of the pool that the excludes leave visible ("an externally computed base
  package set"); an empty query holds nothing.
\<close>

definition PackageQuery :: "(ExcludeFlags \<Rightarrow> package_set) \<Rightarrow> ExcludeFlags \<Rightarrow> bool \<Rightarrow> package_set" where
  "PackageQuery base flags empty_arg = (if empty_arg then {} else base flags)"

text \<open>
  Modelled from the spec: \<open>operator|=\<close> of \<open>PackageSet\<close>/\<open>PackageQuery\<close>, missing
  from the source files; the union of two set-like views.
\<close>

definition union_assign :: "package_set \<Rightarrow> package_set \<Rightarrow> package_set" where
  "union_assign this other = this \<union> other"

text \<open>
  Modelled from the spec: \<open>PackageSet::contains\<close>, \<open>PackageSet::add\<close> and
  \<open>PackageSet::empty\<close>, missing from the source files; membership, insertion and the
  emptiness test of a set-like view.
\<close>

definition contains :: "package_set \<Rightarrow> package \<Rightarrow> bool" where
  "contains this pkg = (pkg \<in> this)"

definition add :: "package_set \<Rightarrow> package \<Rightarrow> package_set" where
  "add this pkg = insert pkg this"

definition empty_query :: "package_set \<Rightarrow> bool" where
  "empty_query this = (this = {})"

text \<open>
  Modelled from the spec: the filters \<open>PackageQuery::filter_arch\<close>,
  \<open>filter_file\<close> and \<open>filter_provides\<close> with \<open>QueryCmp::GLOB\<close>, missing from the
  source files; each narrows the query to the packages that satisfy a predicate: some
  pattern of the list matches the architecture, one of the owned files, one of the
  provided capabilities. Glob matching itself is the argument \<open>glob\<close> (pattern first).
\<close>

definition filter_query :: "(package \<Rightarrow> bool) \<Rightarrow> package_set \<Rightarrow> package_set" where
  "filter_query pred this = Set.filter pred this"


definition filter_file ::
  "pool \<Rightarrow> (string \<Rightarrow> string \<Rightarrow> bool) \<Rightarrow> string list \<Rightarrow> package_set \<Rightarrow> package_set" where
  "filter_file pool glob patterns this =
     filter_query (\<lambda>pkg. list_ex (\<lambda>pat. list_ex (glob pat) (pkg_files (pool pkg))) patterns) this"

definition filter_provides ::
  "pool \<Rightarrow> (string \<Rightarrow> string \<Rightarrow> bool) \<Rightarrow> string list \<Rightarrow> package_set \<Rightarrow> package_set" where
  "filter_provides pool glob patterns this =
     filter_query (\<lambda>pkg. list_ex (\<lambda>pat. list_ex (glob pat) (pkg_provides (pool pkg))) patterns) this"

text \<open>
  The settings that \<open>repoquery.cpp\<close> overrides in a \<open>ResolveSpecSettings\<close>; the other
  fields and the defaults are declared in another header of libdnf5, so a function that
  builds settings takes the defaults as an argument.
\<close>

record ResolveSpecSettings =
  ignore_case :: bool
  with_provides :: bool
  with_filenames :: bool
  with_binaries :: bool

text \<open>
  Modelled from the spec: \<open>PackageQuery::resolve_pkg_spec(spec, settings, with_src)\<close>,
  missing from the source files; it narrows the query it is called on to the packages
  that the spec matches. Which packages a spec matches under given settings is the
  argument \<open>matches\<close>.
\<close>

definition resolve_pkg_spec ::
  "(ResolveSpecSettings \<Rightarrow> bool \<Rightarrow> string \<Rightarrow> package \<Rightarrow> bool) \<Rightarrow>
   string \<Rightarrow> ResolveSpecSettings \<Rightarrow> bool \<Rightarrow> package_set \<Rightarrow> package_set" where
  "resolve_pkg_spec matches spec settings with_src this =
     filter_query (matches settings with_src spec) this"

subsection \<open>\<open>resolve_nevras_to_packges\<close>\<close>

text \<open>
  Source: the static function \<open>resolve_nevras_to_packges\<close> of \<open>repoquery.cpp\<close>. The
  loop starts from the empty \<open>PackageSet\<close>, copies \<open>base_query\<close> for every glob,
  resolves the glob on the copy and unites the copy into the result.
\<close>

fun resolve_nevras_loop ::
  "(ResolveSpecSettings \<Rightarrow> bool \<Rightarrow> string \<Rightarrow> package \<Rightarrow> bool) \<Rightarrow> ResolveSpecSettings \<Rightarrow>
   package_set \<Rightarrow> string list \<Rightarrow> package_set \<Rightarrow> package_set" where
  "resolve_nevras_loop matches settings base_query [] resolved_nevras_set = resolved_nevras_set"
| "resolve_nevras_loop matches settings base_query (nevra # nevra_globs) resolved_nevras_set =
     (let tmp_query = base_query;
          tmp_query = resolve_pkg_spec matches nevra settings True tmp_query
      in resolve_nevras_loop matches settings base_query nevra_globs
           (union_assign resolved_nevras_set tmp_query))"

definition resolve_nevras_to_packges ::
  "(ResolveSpecSettings \<Rightarrow> bool \<Rightarrow> string \<Rightarrow> package \<Rightarrow> bool) \<Rightarrow> ResolveSpecSettings \<Rightarrow>
   string list \<Rightarrow> package_set \<Rightarrow> package_set" where
  "resolve_nevras_to_packges matches default_settings nevra_globs base_query =
     (let settings = default_settings
            \<lparr>with_provides := False, with_filenames := False, with_binaries := False\<rparr>
      in resolve_nevras_loop matches settings base_query nevra_globs {})"

subsection \<open>\<open>RepoqueryCommand::run\<close>: the initial result query\<close>

text \<open>
  Source: the head of \<open>RepoqueryCommand::run\<close>, from the construction of
  \<open>base_query\<close> and \<open>result_query\<close> to the end of the filter by \<open>pkg_specs\<close>. The
  two loops of the \<open>else\<close> branch are \<open>add_cmdline_packages\<close> and
  \<open>resolve_specs\<close>.
\<close>

fun add_cmdline_packages :: "package_set \<Rightarrow> package list \<Rightarrow> package_set \<Rightarrow> package_set" where
  "add_cmdline_packages base_query [] result_query = result_query"
| "add_cmdline_packages base_query (pkg # cmdline_packages) result_query =
     add_cmdline_packages base_query cmdline_packages
       (if contains base_query pkg then add result_query pkg else result_query)"

fun resolve_specs ::
  "(ResolveSpecSettings \<Rightarrow> bool \<Rightarrow> string \<Rightarrow> package \<Rightarrow> bool) \<Rightarrow> ResolveSpecSettings \<Rightarrow>
   package_set \<Rightarrow> string list \<Rightarrow> package_set \<Rightarrow> package_set" where
  "resolve_specs matches settings base_query [] result_query = result_query"
| "resolve_specs matches settings base_query (spec # specs) result_query =
     (let package_query = base_query;
          package_query = resolve_pkg_spec matches spec settings True package_query
      in resolve_specs matches settings base_query specs
           (union_assign result_query package_query))"

definition initial_result_query ::
  "(ExcludeFlags \<Rightarrow> package_set) \<Rightarrow>
   (ResolveSpecSettings \<Rightarrow> bool \<Rightarrow> string \<Rightarrow> package \<Rightarrow> bool) \<Rightarrow> ResolveSpecSettings \<Rightarrow>
   bool \<Rightarrow> string list \<Rightarrow> package list \<Rightarrow> package_set" where
  "initial_result_query base matches default_settings disable_modular_filtering
       specs cmdline_packages =
     (let flags = (if disable_modular_filtering then IGNORE_MODULAR_EXCLUDES
                   else APPLY_EXCLUDES);
          base_query = PackageQuery base flags False;
          result_query = PackageQuery base flags True
      in if specs = [] then union_assign result_query base_query
         else
           let result_query = add_cmdline_packages base_query cmdline_packages result_query;
               settings = default_settings
                 \<lparr>ignore_case := True, with_provides := False, with_binaries := False\<rparr>
           in resolve_specs matches settings base_query specs result_query)"

subsection \<open>\<open>RepoqueryCommand::run\<close>: the steps for \<open>--whatprovides\<close>, \<open>--arch\<close> and \<open>--file\<close>\<close>

text \<open>
  Source: three of the \<open>if\<close> statements of \<open>RepoqueryCommand::run\<close>; each takes the
  value of its option and the current \<open>result_query\<close> and gives the next one.
\<close>

definition whatprovides_step ::
  "pool \<Rightarrow> (string \<Rightarrow> string \<Rightarrow> bool) \<Rightarrow> string list \<Rightarrow> package_set \<Rightarrow> package_set" where
  "whatprovides_step pool glob whatprovides_value result_query =
     (if whatprovides_value \<noteq> [] then
        let provides_query = result_query;
            provides_query = filter_provides pool glob whatprovides_value provides_query
        in if \<not> empty_query provides_query then provides_query
           else filter_file pool glob whatprovides_value result_query
      else result_query)"




section \<open>The D-Bus interface \<open>org.rpm.dnf.v0.rpm.Rpm\<close>\<close>

text \<open>
  Source: the introspection file \<open>org.rpm.dnf.v0.rpm.Rpm.xml\<close> of dnf5daemon-server. A
  \<open>method\<close> element is a name and its \<open>arg\<close> elements in document order; an
  \<open>arg\<close> is a name, a D-Bus type signature and a direction. The signals of the
  interface are left out.
\<close>

datatype direction = In | Out

record arg =
  arg_name :: string
  arg_type :: string
  arg_direction :: direction

record dbus_method =
  method_name :: string
  method_args :: "arg list"

definition specs_and_options :: "arg list" where
  "specs_and_options =
     [\<lparr>arg_name = ''specs'', arg_type = ''as'', arg_direction = In\<rparr>,
      \<lparr>arg_name = ''options'', arg_type = ''a{sv}'', arg_direction = In\<rparr>]"

definition rpm_interface :: "dbus_method list" where
  "rpm_interface =
     [\<lparr>method_name = ''list'', method_args =
         [\<lparr>arg_name = ''options'', arg_type = ''a{sv}'', arg_direction = In\<rparr>,
          \<lparr>arg_name = ''data'', arg_type = ''aa{sv}'', arg_direction = Out\<rparr>]\<rparr>,
      \<lparr>method_name = ''install'', method_args = specs_and_options\<rparr>,
      \<lparr>method_name = ''upgrade'', method_args = specs_and_options\<rparr>,
      \<lparr>method_name = ''remove'', method_args = specs_and_options\<rparr>,
      \<lparr>method_name = ''distro_sync'', method_args = specs_and_options\<rparr>,
      \<lparr>method_name = ''downgrade'', method_args = specs_and_options\<rparr>,
      \<lparr>method_name = ''reinstall'', method_args = specs_and_options\<rparr>]"

text \<open>The type signatures of the input arguments of the method of a given name.\<close>

definition input_signature :: "string \<Rightarrow> string list option" where
  "input_signature name =
     map_option (\<lambda>m. map arg_type (filter (\<lambda>a. arg_direction a = In) (method_args m)))
       (find (\<lambda>m. method_name m = name) rpm_interface)"

text \<open>
  A method accepts a spec list and an options dictionary: among its input arguments are an
  array of strings and a dictionary from strings to variants.
\<close>

definition accepts_specs_and_options :: "string \<Rightarrow> bool" where
  "accepts_specs_and_options name =
     (case input_signature name of
        None \<Rightarrow> False
      | Some sig \<Rightarrow> ''as'' \<in> set sig \<and> ''a{sv}'' \<in> set sig)"


section \<open>Example inputs\<close>

text \<open>
  Two drop-in directories as \<open>Base::load_config\<close> passes them, with a file name present
  in both, a name that differs from another in case only, a file of another extension and
  an entry that is not a regular file; and the same directories listed in another order.
\<close>

definition example_directories :: "string list" where
  "example_directories = [''/etc/dnf/libdnf5.conf.d'', ''/usr/share/dnf5/libdnf.conf.d'']"

definition example_fs :: "string \<Rightarrow> dentry list" where
  "example_fs dir =
     (if dir = ''/etc/dnf/libdnf5.conf.d'' then
        [\<lparr>d_name = ''b.conf'', d_regular = True\<rparr>,
         \<lparr>d_name = ''a.conf'', d_regular = True\<rparr>,
         \<lparr>d_name = ''notes.txt'', d_regular = True\<rparr>]
      else if dir = ''/usr/share/dnf5/libdnf.conf.d'' then
        [\<lparr>d_name = ''a.conf'', d_regular = True\<rparr>,
         \<lparr>d_name = ''B.conf'', d_regular = True\<rparr>,
         \<lparr>d_name = ''c.conf'', d_regular = False\<rparr>]
      else [])"

definition example_fs_reordered :: "string \<Rightarrow> dentry list" where
  "example_fs_reordered dir =
     (if dir = ''/etc/dnf/libdnf5.conf.d'' then
        [\<lparr>d_name = ''notes.txt'', d_regular = True\<rparr>,
         \<lparr>d_name = ''a.conf'', d_regular = True\<rparr>,
         \<lparr>d_name = ''b.conf'', d_regular = True\<rparr>]
      else if dir = ''/usr/share/dnf5/libdnf.conf.d'' then
        [\<lparr>d_name = ''c.conf'', d_regular = False\<rparr>,
         \<lparr>d_name = ''B.conf'', d_regular = True\<rparr>,
         \<lparr>d_name = ''a.conf'', d_regular = True\<rparr>]
      else [])"


text \<open>
  Priorities as numbers, with 70 for the command line and 20 for a value read from the
  main configuration file; a configuration whose path was not given by the user and one
  whose path was; and three functions to wrap, which throw whatever path they get.
\<close>

definition example_config :: "nat \<Rightarrow> nat config_main" where
  "example_config priority =
     \<lparr>config_file_path = ''/etc/dnf/dnf.conf'', config_file_path_priority = priority,
      use_host_config = False, installroot = ''/mnt/root''\<rparr>"

definition example_under_root :: "string \<Rightarrow> string \<Rightarrow> string" where
  "example_under_root root p = root @ p"

definition throw_missing :: "string \<Rightarrow> config_exception + unit" where
  "throw_missing p = Inl MissingConfigError"

definition throw_inaccessible :: "string \<Rightarrow> config_exception + unit" where
  "throw_inaccessible p = Inl InaccessibleConfigError"

definition throw_other :: "string \<Rightarrow> config_exception + unit" where
  "throw_other p = Inl (OtherException ''InvalidConfigError'')"

text \<open>
  A context that records the calls made on it, and a repoquery command line with
  \<open>--exactdeps\<close> alone.
\<close>

definition example_ops :: "string list context_ops" where
  "example_ops =
     \<lparr>update_repo_metadata_from_specs = (\<lambda>specs c. c @ [''update_repo_metadata_from_specs'']),
      set_load_system_repo = (\<lambda>b c. c @ [''set_load_system_repo'']),
      update_repo_metadata_from_advisory_options =
        (\<lambda>a c. c @ [''update_repo_metadata_from_advisory_options'']),
      set_load_available_repos = (\<lambda>l c. c @ [''set_load_available_repos'']),
      enable_source_repos = (\<lambda>c. c @ [''enable_source_repos'']),
      add_optional_metadata_type = (\<lambda>t c. c @ [''add_optional_metadata_type'']),
      is_file_pattern = (\<lambda>pattern. take 1 pattern = ''/''),
      requires_filelists = (\<lambda>format. False)\<rparr>"

definition example_command :: "nat repoquery_command" where
  "example_command =
     \<lparr>pkg_specs = [], system_repo_needed = False, querytags_option = False,
      available_option_priority = 10, installed_option = False,
      userinstalled_option = False, duplicates = False, leaves_option = False,
      unneeded = False, extras = False, upgrades = False, installonly = False,
      advisory = \<lparr>advisory_name = [], advisory_security = False, advisory_bugfix = False,
        advisory_enhancement = False, advisory_newpackage = False, advisory_severity = [],
        advisory_bz = [], advisory_cve = []\<rparr>,
      srpm = False, changelogs = False, pkg_attr_option = [],
      query_format_option = ''%{full_nevra}'', whatrequires = [], whatdepends = [],
      whatconflicts = [], whatprovides = [], whatobsoletes = [], whatrecommends = [],
      whatenhances = [], whatsupplements = [], whatsuggests = [], exactdeps = True\<rparr>"

text \<open>
  A pool of three packages: package 1 provides the capability \<open>/usr/bin/tool\<close>,
  package 2 owns a file of that name, package 3 has neither; glob matching is equality.
\<close>

definition example_pool :: pool where
  "example_pool pkg =
     (if pkg = 1 then
        \<lparr>pkg_arch = ''x86_64'', pkg_provides = [''/usr/bin/tool''], pkg_files = []\<rparr>
      else if pkg = 2 then
        \<lparr>pkg_arch = ''noarch'', pkg_provides = [''other''], pkg_files = [''/usr/bin/tool'']\<rparr>
      else \<lparr>pkg_arch = ''x86_64'', pkg_provides = [], pkg_files = []\<rparr>)"

definition example_glob :: "string \<Rightarrow> string \<Rightarrow> bool" where
  "example_glob pattern s = (pattern = s)"

text \<open>
  A base in which the excludes hide package 3, a spec that matches by architecture, and
  the defaults of the settings.
\<close>

definition example_base :: "ExcludeFlags \<Rightarrow> package_set" where
  "example_base flags = {1, 2}"

definition example_matches :: "ResolveSpecSettings \<Rightarrow> bool \<Rightarrow> string \<Rightarrow> package \<Rightarrow> bool" where
  "example_matches settings with_src spec pkg = (pkg_arch (example_pool pkg) = spec)"

definition example_settings :: ResolveSpecSettings where
  "example_settings =
     \<lparr>ignore_case = False, with_provides = True, with_filenames = True,
      with_binaries = True\<rparr>"


section \<open>Properties of \<open>create_sorted_file_list\<close>\<close>

subsection \<open>Facts about the loops\<close>

lemma found_in_list_iff: "found_in_list n ps \<longleftrightarrow> n \<in> filename ` set ps"
  by (induction ps) auto

lemma scan_directory_distinct:
  "distinct (map filename paths) \<Longrightarrow>
   distinct (map filename (scan_directory ext dir es paths))"
  by (induction es arbitrary: paths) (auto simp: found_in_list_iff)

lemma scan_directory_set:
  "set (scan_directory ext dir es paths) =
     set paths \<union>
     {\<lparr>parent_path = dir, filename = d_name e\<rparr> | e.
        e \<in> set es \<and> d_regular e \<and> extension (d_name e) = ext \<and>
        d_name e \<notin> filename ` set paths}"
proof (induction es arbitrary: paths)
  case Nil
  show ?case by simp
next
  case (Cons e es)
  show ?case
    unfolding scan_directory.simps Cons.IH
    by (auto simp: found_in_list_iff)
qed

lemma collect_paths_distinct:
  "distinct (map filename paths) \<Longrightarrow>
   distinct (map filename (collect_paths fs ext dirs paths))"
  by (induction dirs arbitrary: paths) (auto simp: scan_directory_distinct)

lemma scan_directory_mem:
  "p \<in> set (scan_directory ext dir (fs dir) paths) \<longleftrightarrow>
     p \<in> set paths \<or>
     (filename p \<notin> filename ` set paths \<and> has_file fs ext dir (filename p) \<and> parent_path p = dir)"
  unfolding scan_directory_set by (cases p) (auto simp: has_file_def list_ex_iff)

lemma scan_directory_names:
  "filename ` set (scan_directory ext dir (fs dir) paths) =
     filename ` set paths \<union> {n. has_file fs ext dir n}"
proof (rule set_eqI)
  fix n
  show "n \<in> filename ` set (scan_directory ext dir (fs dir) paths) \<longleftrightarrow>
        n \<in> filename ` set paths \<union> {n. has_file fs ext dir n}"
  proof
    assume "n \<in> filename ` set (scan_directory ext dir (fs dir) paths)"
    then obtain p where "p \<in> set (scan_directory ext dir (fs dir) paths)" "n = filename p"
      by auto
    then show "n \<in> filename ` set paths \<union> {n. has_file fs ext dir n}"
      by (auto simp: scan_directory_mem)
  next
    assume n: "n \<in> filename ` set paths \<union> {n. has_file fs ext dir n}"
    show "n \<in> filename ` set (scan_directory ext dir (fs dir) paths)"
    proof (cases "n \<in> filename ` set paths")
      case True
      then show ?thesis by (auto simp: scan_directory_mem)
    next
      case False
      with n have "has_file fs ext dir n" by simp
      with False have "\<lparr>parent_path = dir, filename = n\<rparr> \<in> set (scan_directory ext dir (fs dir) paths)"
        by (simp add: scan_directory_mem)
      then show ?thesis by force
    qed
  qed
qed

lemma collect_paths_mem:
  "p \<in> set (collect_paths fs ext dirs paths) \<longleftrightarrow>
     p \<in> set paths \<or>
     (filename p \<notin> filename ` set paths \<and>
      find (\<lambda>d. has_file fs ext d (filename p)) dirs = Some (parent_path p))"
proof (induction dirs arbitrary: paths)
  case Nil
  show ?case by simp
next
  case (Cons dir dirs)
  show ?case
    unfolding collect_paths.simps Cons.IH scan_directory_names
    by (auto simp: scan_directory_mem)
qed

lemma filter_key_singleton:
  "distinct (map f ys) \<Longrightarrow> k \<in> set ys \<Longrightarrow> filter (\<lambda>x. f k = f x) ys = [k]"
  by (induction ys) (auto simp: filter_empty_conv image_iff)

lemma sorted_perm_unique:
  assumes "distinct (map f xs)" and "mset ys = mset xs" and "sorted (map f ys)"
  shows "sort_key f xs = ys"
proof (rule properties_for_sort_key [OF assms(2) _ assms(3)])
  fix k assume k: "k \<in> set ys"
  have dy: "distinct (map f ys)"
    using assms(1,2) by (metis distinct_map mset_eq_setD mset_eq_imp_distinct_iff)
  have "k \<in> set xs" using k assms(2) by (metis mset_eq_setD)
  then show "filter (\<lambda>x. f k = f x) ys = filter (\<lambda>x. f k = f x) xs"
    using filter_key_singleton [OF dy k] filter_key_singleton [OF assms(1)] by simp
qed


lemma collect_paths_set_cong:
  assumes "\<forall>dir\<in>set dirs. set (fs' dir) = set (fs dir)"
  shows "set (collect_paths fs' ext dirs []) = set (collect_paths fs ext dirs [])"
proof -
  have "find (\<lambda>d. has_file fs' ext d n) dirs = find (\<lambda>d. has_file fs ext d n) dirs" for n
    using assms by (intro find_cong) (auto simp: has_file_def list_ex_iff)
  then show ?thesis
    by (auto simp: collect_paths_mem)
qed

subsection \<open>The list is sorted and determined by its input\<close>

text \<open>
  Claim C1. For every list of directories and every file extension, the list that
  \<open>create_sorted_file_list\<close> returns is sorted by file name, and its file names are
  pairwise distinct. So the order is determined: every permutation of the kept paths that
  is sorted by file name, whatever sorting procedure produced it, is the returned list. And
  the result does not depend on the order in which each directory is traversed: when every
  directory lists the same entries in another order (\<open>fs'\<close> instead of \<open>fs\<close>), the
  returned list is the same.
\<close>

theorem sorted_file_list_deterministic:
  assumes "\<forall>dir\<in>set directories. mset (fs' dir) = mset (fs dir)"
  shows "sorted (map filename (create_sorted_file_list fs directories ext)) \<and>
         distinct (map filename (create_sorted_file_list fs directories ext)) \<and>
         (\<forall>ys. mset ys = mset (collect_paths fs ext directories []) \<and> sorted (map filename ys)
              \<longrightarrow> ys = create_sorted_file_list fs directories ext) \<and>
         create_sorted_file_list fs' directories ext = create_sorted_file_list fs directories ext"
proof -
  let ?xs = "collect_paths fs ext directories []"
  let ?xs' = "collect_paths fs' ext directories []"
  have d: "distinct (map filename ?xs)" and d': "distinct (map filename ?xs')"
    by (simp_all add: collect_paths_distinct)
  have srt: "sorted (map filename (create_sorted_file_list fs directories ext))"
    by (simp add: create_sorted_file_list_def)
  have dst: "distinct (map filename (create_sorted_file_list fs directories ext))"
  proof -
    have "mset (map filename (sort_key filename ?xs)) = mset (map filename ?xs)"
      by simp
    then show ?thesis
      unfolding create_sorted_file_list_def using d by (metis mset_eq_imp_distinct_iff)
  qed
  have uniq: "ys = create_sorted_file_list fs directories ext"
    if "mset ys = mset ?xs" "sorted (map filename ys)" for ys
    unfolding create_sorted_file_list_def
    using sorted_perm_unique [OF d that] by simp
  have "set (fs' dir) = set (fs dir)" if "dir \<in> set directories" for dir
    using assms that by (metis mset_eq_setD)
  then have "set ?xs' = set ?xs"
    by (intro collect_paths_set_cong) simp
  moreover have "distinct ?xs" "distinct ?xs'"
    using d d' by (simp_all add: distinct_map)
  ultimately have "mset ?xs' = mset ?xs"
    by (simp add: set_eq_iff_mset_eq_distinct)
  then have "mset (sort_key filename ?xs') = mset ?xs"
    by simp
  then have "sort_key filename ?xs' = create_sorted_file_list fs directories ext"
    by (intro uniq) simp_all
  then have "create_sorted_file_list fs' directories ext = create_sorted_file_list fs directories ext"
    by (simp add: create_sorted_file_list_def)
  with srt dst uniq show ?thesis by blast
qed

theorem sorted_file_list_deterministic_witness:
  "mset (example_fs_reordered ''/etc/dnf/libdnf5.conf.d'') =
     mset (example_fs ''/etc/dnf/libdnf5.conf.d'') \<and>
   mset (example_fs_reordered ''/usr/share/dnf5/libdnf.conf.d'') =
     mset (example_fs ''/usr/share/dnf5/libdnf.conf.d'') \<and>
   example_fs_reordered ''/etc/dnf/libdnf5.conf.d'' \<noteq> example_fs ''/etc/dnf/libdnf5.conf.d'' \<and>
   create_sorted_file_list example_fs_reordered example_directories ''.conf'' =
     [\<lparr>parent_path = ''/usr/share/dnf5/libdnf.conf.d'', filename = ''B.conf''\<rparr>,
      \<lparr>parent_path = ''/etc/dnf/libdnf5.conf.d'', filename = ''a.conf''\<rparr>,
      \<lparr>parent_path = ''/etc/dnf/libdnf5.conf.d'', filename = ''b.conf''\<rparr>] \<and>
   sorted (map filename (create_sorted_file_list example_fs example_directories ''.conf''))"
proof -
  have h: "\<forall>dir\<in>set example_directories. mset (example_fs_reordered dir) = mset (example_fs dir)"
    by (simp add: example_directories_def example_fs_def example_fs_reordered_def)
  have e: "mset (example_fs_reordered ''/etc/dnf/libdnf5.conf.d'') =
             mset (example_fs ''/etc/dnf/libdnf5.conf.d'')"
      "mset (example_fs_reordered ''/usr/share/dnf5/libdnf.conf.d'') =
             mset (example_fs ''/usr/share/dnf5/libdnf.conf.d'')"
      "example_fs_reordered ''/etc/dnf/libdnf5.conf.d'' \<noteq> example_fs ''/etc/dnf/libdnf5.conf.d''"
    by (simp_all add: example_fs_def example_fs_reordered_def)
  have v: "create_sorted_file_list example_fs example_directories ''.conf'' =
     [\<lparr>parent_path = ''/usr/share/dnf5/libdnf.conf.d'', filename = ''B.conf''\<rparr>,
      \<lparr>parent_path = ''/etc/dnf/libdnf5.conf.d'', filename = ''a.conf''\<rparr>,
      \<lparr>parent_path = ''/etc/dnf/libdnf5.conf.d'', filename = ''b.conf''\<rparr>]"
    by code_simp
  from sorted_file_list_deterministic [OF h, of "''.conf''"] e v show ?thesis
    by simp
qed

subsection \<open>The first directory wins\<close>

text \<open>
  Claim C6. When a regular file named \<open>n\<close> with the requested extension is listed in
  several of the input directories, and \<open>i\<close> is the first position in the input vector
  whose directory lists one, the returned list holds exactly one path with file name
  \<open>n\<close>, the one in directory \<open>directories ! i\<close>; the path of \<open>n\<close> in any other
  directory of the vector is not in the returned list.
\<close>

theorem first_directory_wins:
  assumes "i < length directories"
    and "has_file fs ext (directories ! i) n"
    and "\<forall>k<i. \<not> has_file fs ext (directories ! k) n"
  shows "filter (\<lambda>p. filename p = n) (create_sorted_file_list fs directories ext) =
           [\<lparr>parent_path = directories ! i, filename = n\<rparr>] \<and>
         (\<forall>j<length directories. directories ! j \<noteq> directories ! i \<longrightarrow>
            \<lparr>parent_path = directories ! j, filename = n\<rparr>
              \<notin> set (create_sorted_file_list fs directories ext))"
proof -
  let ?res = "create_sorted_file_list fs directories ext"
  let ?p = "\<lparr>parent_path = directories ! i, filename = n\<rparr>"
  have fnd: "find (\<lambda>d. has_file fs ext d n) directories = Some (directories ! i)"
    using assms by (auto simp: find_Some_iff)
  have mem: "p \<in> set ?res \<longleftrightarrow>
      find (\<lambda>d. has_file fs ext d (filename p)) directories = Some (parent_path p)" for p
    by (simp add: create_sorted_file_list_def collect_paths_mem)
  have d: "distinct (map filename ?res)"
  proof -
    have "mset (map filename ?res) = mset (map filename (collect_paths fs ext directories []))"
      by (simp add: create_sorted_file_list_def)
    then show ?thesis
      by (metis collect_paths_distinct distinct.simps(1) list.simps(8) mset_eq_imp_distinct_iff)
  qed
  have in_res: "?p \<in> set ?res"
    using fnd by (simp add: mem)
  have "filter (\<lambda>x. filename ?p = filename x) ?res = [?p]"
    by (rule filter_key_singleton [OF d in_res])
  moreover have "filter (\<lambda>p. filename p = n) ?res = filter (\<lambda>x. filename ?p = filename x) ?res"
    by (rule filter_cong) auto
  ultimately have one: "filter (\<lambda>p. filename p = n) ?res = [?p]"
    by simp
  have "\<lparr>parent_path = directories ! j, filename = n\<rparr> \<notin> set ?res"
    if "directories ! j \<noteq> directories ! i" for j
    using that fnd by (simp add: mem)
  with one show ?thesis by blast
qed

theorem first_directory_wins_witness:
  "(0::nat) < length example_directories \<and>
   has_file example_fs ''.conf'' (example_directories ! 0) ''a.conf'' \<and>
   has_file example_fs ''.conf'' (example_directories ! 1) ''a.conf'' \<and>
   filter (\<lambda>p. filename p = ''a.conf'')
       (create_sorted_file_list example_fs example_directories ''.conf'') =
     [\<lparr>parent_path = ''/etc/dnf/libdnf5.conf.d'', filename = ''a.conf''\<rparr>] \<and>
   \<lparr>parent_path = ''/usr/share/dnf5/libdnf.conf.d'', filename = ''a.conf''\<rparr>
     \<notin> set (create_sorted_file_list example_fs example_directories ''.conf'')"
proof -
  have h1: "(0::nat) < length example_directories"
    by (simp add: example_directories_def)
  have h2: "has_file example_fs ''.conf'' (example_directories ! 0) ''a.conf''"
    by (simp add: has_file_def example_fs_def example_directories_def extension_def)
  have h2': "has_file example_fs ''.conf'' (example_directories ! 1) ''a.conf''"
    by (simp add: has_file_def example_fs_def example_directories_def extension_def)
  have h3: "\<forall>k<0::nat. \<not> has_file example_fs ''.conf'' (example_directories ! k) ''a.conf''"
    by simp
  have l: "(1::nat) < length example_directories"
      "example_directories ! 1 \<noteq> example_directories ! 0"
      "example_directories ! 0 = ''/etc/dnf/libdnf5.conf.d''"
      "example_directories ! 1 = ''/usr/share/dnf5/libdnf.conf.d''"
    by (simp_all add: example_directories_def)
  from first_directory_wins [OF h1 h2 h3] l h1 h2 h2' show ?thesis
    by metis
qed


section \<open>Properties of \<open>Base::with_config_file_path\<close>\<close>

text \<open>
  Claim C2. When the wrapped function throws \<open>e\<close> on the path it is handed:
  if \<open>e\<close> is a \<open>MissingConfigError\<close> or an \<open>InaccessibleConfigError\<close> and the
  priority of the config-file-path option is below \<open>COMMANDLINE\<close>, the exception is
  swallowed and \<open>with_config_file_path\<close> returns normally; if \<open>e\<close> is one of these
  two and the priority is \<open>COMMANDLINE\<close> or higher, exactly \<open>e\<close> is thrown again;
  any other exception propagates, whatever the priority.
\<close>

theorem with_config_file_path_outcome:
  fixes COMMANDLINE :: "'p::linorder"
  assumes "func (conf_path_for COMMANDLINE under_root config) = Inl e"
  shows "((e = MissingConfigError \<or> e = InaccessibleConfigError) \<and>
            config_file_path_priority config < COMMANDLINE
          \<longrightarrow> with_config_file_path COMMANDLINE under_root config func = Inr ()) \<and>
         ((e = MissingConfigError \<or> e = InaccessibleConfigError) \<and>
            COMMANDLINE \<le> config_file_path_priority config
          \<longrightarrow> with_config_file_path COMMANDLINE under_root config func = Inl e) \<and>
         (e \<noteq> MissingConfigError \<and> e \<noteq> InaccessibleConfigError
          \<longrightarrow> with_config_file_path COMMANDLINE under_root config func = Inl e)"
  using assms
  by (cases e) (auto simp: with_config_file_path_def)

theorem with_config_file_path_outcome_witness:
  "with_config_file_path 70 example_under_root (example_config 20) throw_missing = Inr () \<and>
   with_config_file_path 70 example_under_root (example_config 20) throw_inaccessible = Inr () \<and>
   with_config_file_path 70 example_under_root (example_config 70) throw_missing
     = Inl MissingConfigError \<and>
   with_config_file_path 70 example_under_root (example_config 80) throw_inaccessible
     = Inl InaccessibleConfigError \<and>
   with_config_file_path 70 example_under_root (example_config 20) throw_other
     = Inl (OtherException ''InvalidConfigError'')"
proof -
  have m: "throw_missing (conf_path_for 70 example_under_root (example_config p)) = Inl MissingConfigError" for p
    by (simp add: throw_missing_def)
  have i: "throw_inaccessible (conf_path_for 70 example_under_root (example_config p)) = Inl InaccessibleConfigError" for p
    by (simp add: throw_inaccessible_def)
  have ot: "throw_other (conf_path_for 70 example_under_root (example_config p)) = Inl (OtherException ''InvalidConfigError'')" for p
    by (simp add: throw_other_def)
  have p: "config_file_path_priority (example_config q) = q" for q
    by (simp add: example_config_def)
  show ?thesis
    using
      with_config_file_path_outcome [where func = throw_missing and config = "example_config 20", OF m]
      with_config_file_path_outcome [where func = throw_inaccessible and config = "example_config 20", OF i]
      with_config_file_path_outcome [where func = throw_missing and config = "example_config 70", OF m]
      with_config_file_path_outcome [where func = throw_inaccessible and config = "example_config 80", OF i]
      with_config_file_path_outcome [where func = throw_other and config = "example_config 20", OF ot]
    by (simp add: p)
qed


section \<open>Properties of \<open>RepoqueryCommand::configure\<close>\<close>

text \<open>
  Claim C3. \<open>configure\<close> throws \<open>ArgumentParserMissingDependentArgumentError\<close> if
  and only if \<open>--exactdeps\<close> is set while the lists of \<open>--whatrequires\<close> and
  \<open>--whatdepends\<close> are both empty, and none of the early returns was taken:
  \<open>--querytags\<close> is not set, the file lists are requested neither by the \<open>files\<close>
  attribute nor by the query format, and no capability of the nine lists is a file
  pattern.
\<close>

theorem configure_throws_iff:
  fixes COMMANDLINE :: "'p::linorder"
  shows "configure COMMANDLINE ops cmd context = Inl ArgumentParserMissingDependentArgumentError
     \<longleftrightarrow>
       exactdeps cmd \<and> whatrequires cmd = [] \<and> whatdepends cmd = [] \<and>
       \<not> querytags_option cmd \<and>
       pkg_attr_option cmd \<noteq> ''files'' \<and>
       \<not> requires_filelists ops (query_format_option cmd) \<and>
       (\<forall>capabilities \<in> set (capability_lists cmd).
          \<forall>capability \<in> set capabilities. \<not> is_file_pattern ops capability)"
  by (auto simp: configure_def Let_def list_ex_iff capability_lists_def)

theorem configure_throws_iff_witness:
  "configure 70 example_ops example_command [] = Inl ArgumentParserMissingDependentArgumentError \<and>
   configure 70 example_ops (example_command\<lparr>whatrequires := [''glibc'']\<rparr>) [] =
     Inr (example_command\<lparr>whatrequires := [''glibc'']\<rparr>,
          [''update_repo_metadata_from_specs'', ''set_load_system_repo'',
           ''update_repo_metadata_from_advisory_options'', ''set_load_available_repos''])"
proof -
  have "configure 70 example_ops example_command [] = Inl ArgumentParserMissingDependentArgumentError"
    unfolding configure_throws_iff
    by (simp add: example_command_def example_ops_def capability_lists_def)
  moreover have "configure 70 example_ops (example_command\<lparr>whatrequires := [''glibc'']\<rparr>) [] =
     Inr (example_command\<lparr>whatrequires := [''glibc'']\<rparr>,
          [''update_repo_metadata_from_specs'', ''set_load_system_repo'',
           ''update_repo_metadata_from_advisory_options'', ''set_load_available_repos''])"
    by (simp add: configure_def example_command_def example_ops_def capability_lists_def)
  ultimately show ?thesis by simp
qed


section \<open>Properties of package sets and of the repoquery filters\<close>

subsection \<open>Facts about the loops of \<open>repoquery.cpp\<close>\<close>

lemma resolve_nevras_loop_eq:
  "resolve_nevras_loop matches settings base_query nevra_globs acc =
     acc \<union> {pkg \<in> base_query. \<exists>nevra \<in> set nevra_globs. matches settings True nevra pkg}"
  by (induction nevra_globs arbitrary: acc)
     (auto simp: union_assign_def resolve_pkg_spec_def filter_query_def)

lemma add_cmdline_packages_eq:
  "add_cmdline_packages base_query cmdline_packages acc =
     acc \<union> (set cmdline_packages \<inter> base_query)"
  by (induction cmdline_packages arbitrary: acc) (auto simp: contains_def add_def)

lemma resolve_specs_eq:
  "resolve_specs matches settings base_query specs acc =
     acc \<union> {pkg \<in> base_query. \<exists>spec \<in> set specs. matches settings True spec pkg}"
  by (induction specs arbitrary: acc)
     (auto simp: union_assign_def resolve_pkg_spec_def filter_query_def)

subsection \<open>Union is idempotent\<close>

text \<open>
  Claim C4. The union \<open>|=\<close> of package queries is idempotent: uniting a query into
  itself leaves it unchanged, and uniting \<open>b\<close> into \<open>a\<close> a second time changes
  nothing. In \<open>resolve_nevras_to_packges\<close>, which unites one resolved query for each
  glob, a glob given twice therefore resolves to the same set as the glob given once.
\<close>

theorem union_assign_idempotent:
  "union_assign q q = q \<and>
   union_assign (union_assign a b) b = union_assign a b \<and>
   resolve_nevras_to_packges matches default_settings (nevra # nevra # nevra_globs) base_query =
     resolve_nevras_to_packges matches default_settings (nevra # nevra_globs) base_query"
  by (auto simp: union_assign_def resolve_nevras_to_packges_def resolve_nevras_loop_eq)

subsection \<open>Which simple filters commute\<close>




subsection \<open>The initial result stays within the base query\<close>

text \<open>
  Claim C9. The initial result query of \<open>RepoqueryCommand::run\<close> is a subset of the
  base query, the query that respects the excludes. Without key specs it is the base
  query itself. With key specs it consists of the command-line packages that the base
  query contains, and of what each spec resolves to on a copy of the base query. Hence a
  package that the base query does not contain is not in the initial result.
\<close>

theorem initial_result_within_base:
  fixes base matches default_settings disable_modular_filtering specs cmdline_packages
  defines "flags \<equiv> (if disable_modular_filtering then IGNORE_MODULAR_EXCLUDES else APPLY_EXCLUDES)"
  defines "initial \<equiv> initial_result_query base matches default_settings
                        disable_modular_filtering specs cmdline_packages"
  shows "initial \<subseteq> PackageQuery base flags False \<and>
         (specs = [] \<longrightarrow> initial = PackageQuery base flags False) \<and>
         (specs \<noteq> [] \<longrightarrow>
            initial =
              {pkg. pkg \<in> set cmdline_packages \<and> contains (PackageQuery base flags False) pkg} \<union>
              {pkg. \<exists>spec \<in> set specs.
                 pkg \<in> resolve_pkg_spec matches spec
                   (default_settings
                      \<lparr>ignore_case := True, with_provides := False, with_binaries := False\<rparr>)
                   True (PackageQuery base flags False)}) \<and>
         (\<forall>pkg. \<not> contains (PackageQuery base flags False) pkg \<longrightarrow> \<not> contains initial pkg)"
  unfolding flags_def initial_def
  by (auto simp: initial_result_query_def Let_def PackageQuery_def union_assign_def
      add_cmdline_packages_eq resolve_specs_eq contains_def resolve_pkg_spec_def filter_query_def)

theorem initial_result_within_base_witness:
  "initial_result_query example_base example_matches example_settings False [''noarch''] [1, 3]
     = {1, 2} \<and>
   PackageQuery example_base APPLY_EXCLUDES False = {1, 2} \<and>
   \<not> contains (PackageQuery example_base APPLY_EXCLUDES False) 3 \<and>
   \<not> contains (initial_result_query example_base example_matches example_settings False
                  [''noarch''] [1, 3]) 3 \<and>
   initial_result_query example_base example_matches example_settings False [] [1, 3] = {1, 2}"
proof -
  have b: "PackageQuery example_base APPLY_EXCLUDES False = {1, 2}"
    by (simp add: PackageQuery_def example_base_def)
  have v: "initial_result_query example_base example_matches example_settings False
             [''noarch''] [1, 3] = {1, 2}"
    by (auto simp: initial_result_query_def PackageQuery_def example_base_def contains_def
        add_def union_assign_def resolve_pkg_spec_def filter_query_def example_matches_def
        example_pool_def)
  have n: "\<not> contains (PackageQuery example_base APPLY_EXCLUDES False) 3"
    by (simp add: b contains_def)
  from initial_result_within_base
         [of example_base example_matches example_settings False "[]" "[1, 3]"]
       initial_result_within_base
         [of example_base example_matches example_settings False "[''noarch'']" "[1, 3]"]
       b v n
  show ?thesis by simp
qed

subsection \<open>\<open>--whatprovides\<close>: provides first, files only as a fallback\<close>

text \<open>
  Claim C10. With a non-empty \<open>--whatprovides\<close> list: if narrowing the current result
  query to the packages whose provides match the globs gives a non-empty query, that
  query is the new result; only if it is empty, the new result is the current result
  query narrowed to the packages that own a file matching the same globs. The two are
  never combined: when some package matches by its provides, no package that does not is
  in the result, whatever files it owns.
\<close>

theorem whatprovides_step_precedence:
  assumes "whatprovides_value \<noteq> []"
  shows "(\<not> empty_query (filter_provides pool glob whatprovides_value q) \<longrightarrow>
            whatprovides_step pool glob whatprovides_value q =
              filter_provides pool glob whatprovides_value q) \<and>
         (empty_query (filter_provides pool glob whatprovides_value q) \<longrightarrow>
            whatprovides_step pool glob whatprovides_value q =
              filter_file pool glob whatprovides_value q) \<and>
         (\<forall>pkg. \<not> empty_query (filter_provides pool glob whatprovides_value q) \<and>
                pkg \<notin> filter_provides pool glob whatprovides_value q
            \<longrightarrow> pkg \<notin> whatprovides_step pool glob whatprovides_value q)"
  using assms by (simp add: whatprovides_step_def Let_def)

theorem whatprovides_step_precedence_witness:
  "whatprovides_step example_pool example_glob [''/usr/bin/tool''] {1, 2, 3} = {1} \<and>
   filter_provides example_pool example_glob [''/usr/bin/tool''] {1, 2, 3} = {1} \<and>
   filter_file example_pool example_glob [''/usr/bin/tool''] {1, 2, 3} = {2} \<and>
   whatprovides_step example_pool example_glob [''/usr/bin/tool''] {2, 3} = {2} \<and>
   filter_provides example_pool example_glob [''/usr/bin/tool''] {2, 3} = {}"
proof -
  have h: "[''/usr/bin/tool''] \<noteq> []" by simp
  have p1: "filter_provides example_pool example_glob [''/usr/bin/tool''] {1, 2, 3} = {1}"
    by (auto simp: filter_provides_def filter_query_def example_pool_def example_glob_def)
  have p2: "filter_provides example_pool example_glob [''/usr/bin/tool''] {2, 3} = {}"
    by (auto simp: filter_provides_def filter_query_def example_pool_def example_glob_def)
  have f1: "filter_file example_pool example_glob [''/usr/bin/tool''] {1, 2, 3} = {2}"
    by (auto simp: filter_file_def filter_query_def example_pool_def example_glob_def)
  have f2: "filter_file example_pool example_glob [''/usr/bin/tool''] {2, 3} = {2}"
    by (auto simp: filter_file_def filter_query_def example_pool_def example_glob_def)
  from whatprovides_step_precedence [OF h, of example_pool example_glob "{1, 2, 3}"]
       whatprovides_step_precedence [OF h, of example_pool example_glob "{2, 3}"]
       p1 p2 f1 f2
  show ?thesis by (simp add: empty_query_def)
qed

section \<open>Properties of the D-Bus interface\<close>

text \<open>
  The method \<open>list\<close> of the interface takes no array of strings: its only input
  argument is the options dictionary.
\<close>

theorem list_accepts_no_spec_list: "\<not> accepts_specs_and_options ''list''"
  by (simp add: accepts_specs_and_options_def input_signature_def rpm_interface_def
      specs_and_options_def)

text \<open>
  Claim C5, amended. Each of the methods \<open>install\<close>, \<open>upgrade\<close>, \<open>remove\<close>,
  \<open>distro_sync\<close>, \<open>downgrade\<close> and \<open>reinstall\<close> takes as input arguments a spec
  list (an array of strings, \<open>as\<close>) followed by an options dictionary (\<open>a{sv}\<close>); the
  method \<open>list\<close> takes an options dictionary only.
\<close>

theorem rpm_interface_inputs:
  "input_signature ''list'' = Some [''a{sv}''] \<and>
   input_signature ''install'' = Some [''as'', ''a{sv}''] \<and>
   input_signature ''upgrade'' = Some [''as'', ''a{sv}''] \<and>
   input_signature ''remove'' = Some [''as'', ''a{sv}''] \<and>
   input_signature ''distro_sync'' = Some [''as'', ''a{sv}''] \<and>
   input_signature ''downgrade'' = Some [''as'', ''a{sv}''] \<and>
   input_signature ''reinstall'' = Some [''as'', ''a{sv}''] \<and>
   accepts_specs_and_options ''install'' \<and>
   accepts_specs_and_options ''upgrade'' \<and>
   accepts_specs_and_options ''remove'' \<and>
   accepts_specs_and_options ''distro_sync'' \<and>
   accepts_specs_and_options ''downgrade'' \<and>
   accepts_specs_and_options ''reinstall''"
  by (simp add: accepts_specs_and_options_def input_signature_def rpm_interface_def
      specs_and_options_def)

end
